theory Spec2Isabelle
  imports Complex_Main "HOL-Library.Monad_Syntax"
begin

section \<open>Values decoded from a model response\<close>

text \<open>
  Every prompted stage reads \<open>response.content\<close> through \<open>json.loads\<close> and then works on
  the decoded Python value with \<open>.get\<close>, truthiness tests and constructor calls. The decoded
  value is modelled as a JSON tree; an object keeps its members as an association list that
  is read with \<open>map_of\<close>. Numbers are \<open>int\<close> (Python's unbounded integers) or \<open>real\<close>
  (the finite values of a Python float; the non-finite floats are outside this model).
\<close>

datatype json =
    JNull
  | JBool bool
  | JInt int
  | JFloat real
  | JStr string
  | JList "json list"
  | JDict "(string \<times> json) list"

type_synonym pydict = "(string \<times> json) list"

text \<open>Python truthiness, as used by \<open>not x\<close>, \<open>if x\<close> and the conditional edge.\<close>

fun truthy :: "json \<Rightarrow> bool" where
  "truthy JNull = False"
| "truthy (JBool b) = b"
| "truthy (JInt n) = (n \<noteq> 0)"
| "truthy (JFloat r) = (r \<noteq> 0)"
| "truthy (JStr s) = (s \<noteq> [])"
| "truthy (JList xs) = (xs \<noteq> [])"
| "truthy (JDict kv) = (kv \<noteq> [])"

text \<open>\<open>d.get(k, default)\<close> on a dict.\<close>

definition dict_get :: "pydict \<Rightarrow> string \<Rightarrow> json \<Rightarrow> json" where
  "dict_get d k dflt = (case map_of d k of None \<Rightarrow> dflt | Some v \<Rightarrow> v)"

text \<open>
  An exception is represented by the text \<open>str(e)\<close> that the node functions put into their
  messages; a computation that may raise returns \<open>Inl\<close> of that text.
\<close>

type_synonym exn = string

definition quoted :: "string \<Rightarrow> string" where
  "quoted s = [CHR 0x27] @ s @ [CHR 0x27]"

text \<open>\<open>str(KeyError(k))\<close> for \<open>d[k]\<close> on a dict without the key \<open>k\<close>.\<close>

definition key_error :: "string \<Rightarrow> exn" where
  "key_error k = quoted k"

text \<open>\<open>d[k]\<close> on a dict.\<close>

definition dict_item :: "pydict \<Rightarrow> string \<Rightarrow> exn + json" where
  "dict_item d k = (case map_of d k of None \<Rightarrow> Inl (key_error k) | Some v \<Rightarrow> Inr v)"

text \<open>The text of the AttributeError raised by reading attribute \<open>a\<close> of \<open>None\<close>.\<close>

definition none_attribute_error :: "string \<Rightarrow> exn" where
  "none_attribute_error a =
     quoted ''NoneType'' @ '' object has no attribute '' @ quoted a"

section \<open>Library behaviour taken as a parameter\<close>

text \<open>
  The source fixes neither the pydantic version nor Python's number parsing. What they do on
  the inputs where versions differ is a parameter of the model:
  \<^item> \<open>coerce_int\<close>: what an \<open>int\<close> field makes of a JSON boolean, float or string
    (\<open>None\<close>: validation error);
  \<^item> \<open>coerce_str\<close>: what a \<open>str\<close> field makes of a JSON boolean or number;
  \<^item> \<open>float_of_str\<close>: Python's \<open>float(s)\<close> on a string (\<open>None\<close>: ValueError);
  \<^item> \<open>validation_text\<close>: the text of the ValidationError raised for the named model.
\<close>

record pylib =
  coerce_int :: "json \<Rightarrow> int option"
  coerce_str :: "json \<Rightarrow> string option"
  float_of_str :: "string \<Rightarrow> real option"
  validation_text :: "string \<Rightarrow> string"

text \<open>Validation of a value against a field of type \<open>str\<close>.\<close>

fun validate_str :: "pylib \<Rightarrow> json \<Rightarrow> string option" where
  "validate_str lib (JStr s) = Some s"
| "validate_str lib JNull = None"
| "validate_str lib (JList xs) = None"
| "validate_str lib (JDict kv) = None"
| "validate_str lib v = coerce_str lib v"

text \<open>Validation against \<open>List[str]\<close>: a list whose items all validate as \<open>str\<close>.\<close>

fun validate_str_each :: "pylib \<Rightarrow> json list \<Rightarrow> string list option" where
  "validate_str_each lib [] = Some []"
| "validate_str_each lib (x # xs) =
     (case validate_str lib x of
        None \<Rightarrow> None
      | Some s \<Rightarrow> (case validate_str_each lib xs of None \<Rightarrow> None | Some ss \<Rightarrow> Some (s # ss)))"

fun validate_str_list :: "pylib \<Rightarrow> json \<Rightarrow> string list option" where
  "validate_str_list lib (JList xs) = validate_str_each lib xs"
| "validate_str_list lib v = None"

text \<open>Validation against \<open>Optional[int]\<close>.\<close>

fun validate_opt_int :: "pylib \<Rightarrow> json \<Rightarrow> int option option" where
  "validate_opt_int lib JNull = Some None"
| "validate_opt_int lib (JInt n) = Some (Some n)"
| "validate_opt_int lib (JList xs) = None"
| "validate_opt_int lib (JDict kv) = None"
| "validate_opt_int lib v = map_option Some (coerce_int lib v)"

text \<open>Python's \<open>float(x)\<close>; \<open>None\<close> stands for the TypeError or ValueError it raises.\<close>

fun py_float :: "pylib \<Rightarrow> json \<Rightarrow> real option" where
  "py_float lib (JInt n) = Some (real_of_int n)"
| "py_float lib (JFloat r) = Some r"
| "py_float lib (JBool b) = Some (if b then 1 else 0)"
| "py_float lib (JStr s) = float_of_str lib s"
| "py_float lib v = None"

section \<open>models.py\<close>

datatype SentimentType = POSITIVE | NEUTRAL | NEGATIVE

fun SentimentType_value :: "SentimentType \<Rightarrow> string" where
  "SentimentType_value POSITIVE = ''positive''"
| "SentimentType_value NEUTRAL = ''neutral''"
| "SentimentType_value NEGATIVE = ''negative''"

text \<open>\<open>SentimentType(v)\<close>: the member whose value equals \<open>v\<close>, or a ValueError.\<close>

definition SentimentType_of :: "json \<Rightarrow> SentimentType option" where
  "SentimentType_of v =
     (if v = JStr ''positive'' then Some POSITIVE
      else if v = JStr ''neutral'' then Some NEUTRAL
      else if v = JStr ''negative'' then Some NEGATIVE
      else None)"

datatype CallCategory = COMPLAINT | INQUIRY | TECHNICAL_SUPPORT | BILLING | GENERAL

fun CallCategory_value :: "CallCategory \<Rightarrow> string" where
  "CallCategory_value COMPLAINT = ''complaint''"
| "CallCategory_value INQUIRY = ''inquiry''"
| "CallCategory_value TECHNICAL_SUPPORT = ''technical_support''"
| "CallCategory_value BILLING = ''billing''"
| "CallCategory_value GENERAL = ''general''"

definition CallCategory_of :: "json \<Rightarrow> CallCategory option" where
  "CallCategory_of v =
     (if v = JStr ''complaint'' then Some COMPLAINT
      else if v = JStr ''inquiry'' then Some INQUIRY
      else if v = JStr ''technical_support'' then Some TECHNICAL_SUPPORT
      else if v = JStr ''billing'' then Some BILLING
      else if v = JStr ''general'' then Some GENERAL
      else None)"

text \<open>
  \<open>QAScore\<close>: five floats, each declared \<open>Field(ge=0, le=10)\<close>. The field \<open>resolution\<close> is
  named \<open>qa_resolution\<close> here, since \<open>CallSummary\<close> has a field of the same name.
\<close>

record QAScore =
  empathy :: real
  professionalism :: real
  qa_resolution :: real
  compliance :: real
  overall :: real

definition score_ok :: "real \<Rightarrow> bool" where
  "score_ok x = (0 \<le> x \<and> x \<le> 10)"

text \<open>The constructor call \<open>QAScore(...)\<close>: \<open>None\<close> is the ValidationError of a bound.\<close>

definition mk_QAScore :: "real \<Rightarrow> real \<Rightarrow> real \<Rightarrow> real \<Rightarrow> real \<Rightarrow> QAScore option" where
  "mk_QAScore e p r c ov =
     (if score_ok e \<and> score_ok p \<and> score_ok r \<and> score_ok c \<and> score_ok ov
      then Some \<lparr>empathy = e, professionalism = p, qa_resolution = r, compliance = c,
                 overall = ov\<rparr>
      else None)"

record CallSummary =
  key_points :: "string list"
  customer_issue :: string
  resolution :: string
  sentiment :: SentimentType
  category :: CallCategory
  action_items :: "string list"

text \<open>
  \<open>CallSummary(...)\<close> as \<open>SummarizationAgent.process\<close> calls it: the two enum members are
  already built, the other four arguments are values taken from the decoded response.
\<close>

definition mk_CallSummary ::
  "pylib \<Rightarrow> json \<Rightarrow> json \<Rightarrow> json \<Rightarrow> SentimentType \<Rightarrow> CallCategory \<Rightarrow> json \<Rightarrow> CallSummary option"
where
  "mk_CallSummary lib kp ci res se ca ai =
     do {
       kp' \<leftarrow> validate_str_list lib kp;
       ci' \<leftarrow> validate_str lib ci;
       res' \<leftarrow> validate_str lib res;
       ai' \<leftarrow> validate_str_list lib ai;
       Some \<lparr>key_points = kp', customer_issue = ci', resolution = res', sentiment = se,
              category = ca, action_items = ai'\<rparr>
     }"

text \<open>\<open>CallTranscript\<close>; its field \<open>text\<close> is named \<open>transcript_text\<close> here.\<close>

record CallTranscript =
  transcript_text :: string
  speaker_count :: "int option"
  duration :: "string option"

text \<open>\<open>CallTranscript(text=t, speaker_count=n, duration=None)\<close>.\<close>

definition mk_CallTranscript :: "pylib \<Rightarrow> json \<Rightarrow> json \<Rightarrow> exn + CallTranscript" where
  "mk_CallTranscript lib t n =
     (case (validate_str lib t, validate_opt_int lib n) of
        (Some t', Some n') \<Rightarrow>
          Inr \<lparr>transcript_text = t', speaker_count = n', duration = None\<rparr>
      | _ \<Rightarrow> Inl (validation_text lib ''CallTranscript''))"

record CallAnalysis =
  transcript :: CallTranscript
  summary :: CallSummary
  qa_scores :: QAScore
  recommendations :: "string list"
  tags :: "string list"

text \<open>
  \<open>CallAnalysis(...)\<close> as \<open>process_call\<close> calls it, on the fields of the final state: the
  three model fields hold an instance or \<open>None\<close>, the two lists hold whatever the routing
  stage stored.
\<close>

definition mk_CallAnalysis ::
  "pylib \<Rightarrow> CallTranscript option \<Rightarrow> CallSummary option \<Rightarrow> QAScore option \<Rightarrow> json \<Rightarrow> json
     \<Rightarrow> exn + CallAnalysis"
where
  "mk_CallAnalysis lib t s q recs tgs =
     (case (t, s, q, validate_str_list lib recs, validate_str_list lib tgs) of
        (Some t', Some s', Some q', Some recs', Some tgs') \<Rightarrow>
          Inr \<lparr>transcript = t', summary = s', qa_scores = q', recommendations = recs',
               tags = tgs'\<rparr>
      | _ \<Rightarrow> Inl (validation_text lib ''CallAnalysis''))"

section \<open>The chat model\<close>

text \<open>
  A prompt is the template of the stage that renders it together with the values that
  \<open>format_messages\<close> substitutes into it.
\<close>

datatype prompt =
    IntakePrompt string
  | SummarizationPrompt string
  | QualityPrompt string string string string
  | RoutingPrompt string string string string real real real real

text \<open>
  \<open>response.content\<close> as \<open>json.loads\<close> reads it: \<open>Malformed\<close> when \<open>json.loads\<close> raises,
  \<open>Decoded v\<close> when it returns \<open>v\<close>.
\<close>

datatype content = Malformed | Decoded json

fun json_loads :: "content \<Rightarrow> json option" where
  "json_loads Malformed = None"
| "json_loads (Decoded v) = Some v"

text \<open>
  \<open>llm.invoke\<close>: it raises (\<open>Inl\<close> of the exception's text: network, authentication, rate
  limit) or returns a response.
\<close>

type_synonym chat_model = "prompt \<Rightarrow> exn + content"

section \<open>agents.py\<close>

text \<open>
  A \<open>process\<close> method that calls the model returns, next to its outcome, the list of the
  prompts it sent: it is empty when the method raises before it reaches \<open>llm.invoke\<close>.
  The body of a \<open>try\<close> whose handler discards the exception is an \<open>option\<close>.
\<close>

subsection \<open>CallIntakeAgent\<close>

definition intake_fallback :: "string \<Rightarrow> pydict" where
  "intake_fallback raw_input =
     [(''is_valid'', JBool True),
      (''reason'', JStr ''Transcript accepted''),
      (''estimated_speakers'', JInt 2),
      (''transcript'', JStr raw_input)]"

fun intake_decode :: "string \<Rightarrow> json \<Rightarrow> pydict option" where
  "intake_decode raw_input (JDict result) =
     Some [(''is_valid'', dict_get result ''is_valid'' (JBool True)),
           (''reason'', dict_get result ''reason'' (JStr ''Valid transcript'')),
           (''estimated_speakers'', dict_get result ''estimated_speakers'' (JInt 2)),
           (''transcript'', JStr raw_input)]"
| "intake_decode raw_input v = None"

text \<open>The \<open>try\<close> statement: the decoded dict, or the fallback when anything in it raises.\<close>

definition intake_try :: "string \<Rightarrow> content \<Rightarrow> pydict" where
  "intake_try raw_input response =
     (case json_loads response \<bind> intake_decode raw_input of
        Some d \<Rightarrow> d
      | None \<Rightarrow> intake_fallback raw_input)"

definition CallIntakeAgent_process :: "chat_model \<Rightarrow> string \<Rightarrow> prompt list \<times> (exn + pydict)" where
  "CallIntakeAgent_process llm raw_input =
     (let p = IntakePrompt raw_input in
      case llm p of
        Inl e \<Rightarrow> ([p], Inl e)
      | Inr response \<Rightarrow> ([p], Inr (intake_try raw_input response)))"

subsection \<open>TranscriptionAgent\<close>

definition TranscriptionAgent_process :: "pylib \<Rightarrow> pydict \<Rightarrow> exn + CallTranscript" where
  "TranscriptionAgent_process lib intake_data =
     (case dict_item intake_data ''transcript'' of
        Inl e \<Rightarrow> Inl e
      | Inr t \<Rightarrow> mk_CallTranscript lib t (dict_get intake_data ''estimated_speakers'' (JInt 2)))"

subsection \<open>SummarizationAgent\<close>

definition summary_fallback :: CallSummary where
  "summary_fallback =
     \<lparr>key_points = [''Summary generation failed - using fallback''],
      customer_issue = ''Unable to parse'',
      resolution = ''Unable to parse'',
      sentiment = NEUTRAL,
      category = GENERAL,
      action_items = []\<rparr>"

fun summary_decode :: "pylib \<Rightarrow> json \<Rightarrow> CallSummary option" where
  "summary_decode lib (JDict data) =
     do {
       se \<leftarrow> SentimentType_of (dict_get data ''sentiment'' (JStr ''neutral''));
       ca \<leftarrow> CallCategory_of (dict_get data ''category'' (JStr ''general''));
       mk_CallSummary lib
         (dict_get data ''key_points'' (JList [JStr ''No key points extracted'']))
         (dict_get data ''customer_issue'' (JStr ''Not identified''))
         (dict_get data ''resolution'' (JStr ''Not specified''))
         se ca
         (dict_get data ''action_items'' (JList []))
     }"
| "summary_decode lib v = None"

definition summary_try :: "pylib \<Rightarrow> content \<Rightarrow> CallSummary" where
  "summary_try lib response =
     (case json_loads response \<bind> summary_decode lib of
        Some s \<Rightarrow> s
      | None \<Rightarrow> summary_fallback)"

definition SummarizationAgent_process ::
  "pylib \<Rightarrow> chat_model \<Rightarrow> CallTranscript option \<Rightarrow> prompt list \<times> (exn + CallSummary)"
where
  "SummarizationAgent_process lib llm t =
     (case t of
        None \<Rightarrow> ([], Inl (none_attribute_error ''text''))
      | Some t' \<Rightarrow>
          (let p = SummarizationPrompt (transcript_text t') in
           case llm p of
             Inl e \<Rightarrow> ([p], Inl e)
           | Inr response \<Rightarrow> ([p], Inr (summary_try lib response))))"

subsection \<open>QualityScoringAgent\<close>

definition qa_fallback :: QAScore where
  "qa_fallback =
     \<lparr>empathy = 7, professionalism = 7, qa_resolution = 7, compliance = 7, overall = 7\<rparr>"

fun qa_decode :: "pylib \<Rightarrow> json \<Rightarrow> QAScore option" where
  "qa_decode lib (JDict data) =
     do {
       e \<leftarrow> py_float lib (dict_get data ''empathy'' (JFloat 7));
       p \<leftarrow> py_float lib (dict_get data ''professionalism'' (JFloat 7));
       r \<leftarrow> py_float lib (dict_get data ''resolution'' (JFloat 7));
       c \<leftarrow> py_float lib (dict_get data ''compliance'' (JFloat 7));
       ov \<leftarrow> py_float lib (dict_get data ''overall'' (JFloat 7));
       mk_QAScore e p r c ov
     }"
| "qa_decode lib v = None"

definition qa_try :: "pylib \<Rightarrow> content \<Rightarrow> QAScore" where
  "qa_try lib response =
     (case json_loads response \<bind> qa_decode lib of
        Some q \<Rightarrow> q
      | None \<Rightarrow> qa_fallback)"

text \<open>The prompt that \<open>format_messages\<close> renders.\<close>

definition quality_prompt :: "CallTranscript \<Rightarrow> CallSummary \<Rightarrow> prompt" where
  "quality_prompt t s =
     QualityPrompt (transcript_text t) (customer_issue s) (resolution s)
       (SentimentType_value (sentiment s))"

text \<open>
  The arguments of \<open>format_messages\<close> are evaluated from left to right before \<open>llm.invoke\<close>
  is called: \<open>transcript.text\<close> first, then \<open>summary.customer_issue\<close>.
\<close>

definition QualityScoringAgent_process ::
  "pylib \<Rightarrow> chat_model \<Rightarrow> CallTranscript option \<Rightarrow> CallSummary option
     \<Rightarrow> prompt list \<times> (exn + QAScore)"
where
  "QualityScoringAgent_process lib llm t s =
     (case t of
        None \<Rightarrow> ([], Inl (none_attribute_error ''text''))
      | Some t' \<Rightarrow>
          (case s of
             None \<Rightarrow> ([], Inl (none_attribute_error ''customer_issue''))
           | Some s' \<Rightarrow>
               (let p = quality_prompt t' s' in
                case llm p of
                  Inl e \<Rightarrow> ([p], Inl e)
                | Inr response \<Rightarrow> ([p], Inr (qa_try lib response)))))"

subsection \<open>RoutingAgent\<close>

text \<open>The dict that \<open>RoutingAgent.process\<close> returns has exactly these two keys.\<close>

record routing_data =
  rd_recommendations :: json
  rd_tags :: json

definition routing_fallback :: "CallSummary \<Rightarrow> routing_data" where
  "routing_fallback s =
     \<lparr>rd_recommendations = JList [JStr ''Review call quality'', JStr ''Follow up with customer''],
      rd_tags = JList [JStr (CallCategory_value (category s)),
                       JStr (SentimentType_value (sentiment s)),
                       JStr ''needs_review'']\<rparr>"

fun routing_decode :: "CallSummary \<Rightarrow> json \<Rightarrow> routing_data option" where
  "routing_decode s (JDict data) =
     Some \<lparr>rd_recommendations =
              dict_get data ''recommendations'' (JList [JStr ''Continue current approach'']),
            rd_tags =
              dict_get data ''tags'' (JList [JStr (CallCategory_value (category s)),
                                             JStr (SentimentType_value (sentiment s))])\<rparr>"
| "routing_decode s v = None"

definition routing_try :: "CallSummary \<Rightarrow> content \<Rightarrow> routing_data" where
  "routing_try s response =
     (case json_loads response \<bind> routing_decode s of
        Some d \<Rightarrow> d
      | None \<Rightarrow> routing_fallback s)"

definition routing_prompt :: "CallSummary \<Rightarrow> QAScore \<Rightarrow> prompt" where
  "routing_prompt s q =
     RoutingPrompt (CallCategory_value (category s)) (SentimentType_value (sentiment s))
       (customer_issue s) (resolution s)
       (empathy q) (professionalism q) (qa_resolution q) (compliance q)"

text \<open>
  Here \<open>summary.category\<close> is the first argument evaluated, \<open>qa_scores.empathy\<close> the first
  that reads the scores.
\<close>

definition RoutingAgent_process ::
  "chat_model \<Rightarrow> CallSummary option \<Rightarrow> QAScore option \<Rightarrow> prompt list \<times> (exn + routing_data)"
where
  "RoutingAgent_process llm s q =
     (case s of
        None \<Rightarrow> ([], Inl (none_attribute_error ''category''))
      | Some s' \<Rightarrow>
          (case q of
             None \<Rightarrow> ([], Inl (none_attribute_error ''empathy''))
           | Some q' \<Rightarrow>
               (let p = routing_prompt s' q' in
                case llm p of
                  Inl e \<Rightarrow> ([p], Inl e)
                | Inr response \<Rightarrow> ([p], Inr (routing_try s' response)))))"

subsection \<open>Responses that do not decode to an object\<close>

text \<open>
  The two ways in which the \<open>try\<close> of a stage fails whatever the fields are: \<open>json.loads\<close>
  raises, or it returns a value that is not a dict, on which \<open>.get\<close> raises AttributeError.
\<close>

fun undecodable :: "content \<Rightarrow> bool" where
  "undecodable Malformed = True"
| "undecodable (Decoded (JDict kv)) = False"
| "undecodable (Decoded v) = True"

subsection \<open>Defaults and accepted field values\<close>

text \<open>
  The defaults that the \<open>.get\<close> calls of each stage give to a missing key, as objects.
\<close>

definition intake_defaults :: pydict where
  "intake_defaults =
     [(''is_valid'', JBool True),
      (''reason'', JStr ''Valid transcript''),
      (''estimated_speakers'', JInt 2)]"

definition summary_defaults :: pydict where
  "summary_defaults =
     [(''key_points'', JList [JStr ''No key points extracted'']),
      (''customer_issue'', JStr ''Not identified''),
      (''resolution'', JStr ''Not specified''),
      (''sentiment'', JStr ''neutral''),
      (''category'', JStr ''general''),
      (''action_items'', JList [])]"

definition qa_defaults :: pydict where
  "qa_defaults =
     [(''empathy'', JFloat 7),
      (''professionalism'', JFloat 7),
      (''resolution'', JFloat 7),
      (''compliance'', JFloat 7),
      (''overall'', JFloat 7)]"

definition routing_defaults :: "CallSummary \<Rightarrow> pydict" where
  "routing_defaults s =
     [(''recommendations'', JList [JStr ''Continue current approach'']),
      (''tags'', JList [JStr (CallCategory_value (category s)),
                        JStr (SentimentType_value (sentiment s))])]"

text \<open>
  Whether the constructor call of the summarization stage accepts the value \<open>v\<close> for the
  field \<open>k\<close>: \<open>key_points\<close> and \<open>action_items\<close> are declared \<open>List[str]\<close>, \<open>customer_issue\<close>
  and \<open>resolution\<close> are \<open>str\<close>, and the other two are built by \<open>SentimentType(v)\<close> and
  \<open>CallCategory(v)\<close>.
\<close>

definition summary_field_ok :: "pylib \<Rightarrow> string \<Rightarrow> json \<Rightarrow> bool" where
  "summary_field_ok lib k v =
     (if k = ''key_points'' \<or> k = ''action_items'' then validate_str_list lib v \<noteq> None
      else if k = ''customer_issue'' \<or> k = ''resolution'' then validate_str lib v \<noteq> None
      else if k = ''sentiment'' then SentimentType_of v \<noteq> None
      else if k = ''category'' then CallCategory_of v \<noteq> None
      else True)"

text \<open>
  Whether the quality scoring stage accepts the value \<open>v\<close> for a score: \<open>float(v)\<close> returns
  a number, and the number meets \<open>Field(ge=0, le=10)\<close>.
\<close>

definition qa_field_ok :: "pylib \<Rightarrow> json \<Rightarrow> bool" where
  "qa_field_ok lib v = (case py_float lib v of None \<Rightarrow> False | Some x \<Rightarrow> score_ok x)"

section \<open>graph.py\<close>

text \<open>
  \<open>CallState\<close>, the dict handed from node to node. The three model fields hold an instance
  or \<open>None\<close>; \<open>recommendations\<close>, \<open>tags\<close> and \<open>error\<close> hold whatever a node stores in them
  (\<open>JNull\<close> is \<open>None\<close>). The fields that \<open>CallAnalysis\<close> also has carry the prefix \<open>st_\<close>.

  Two fields are not in the source. They record what a run did, as a mock model with a call
  counter would: \<open>visited\<close> lists the nodes in the order they were run, \<open>calls\<close> the prompts
  sent to the model. No node reads them.
\<close>

datatype node = Intake | Transcription | Summarization | Quality_scoring | Routing

record CallState =
  raw_input :: string
  intake_data :: pydict
  st_transcript :: "CallTranscript option"
  st_summary :: "CallSummary option"
  st_qa_scores :: "QAScore option"
  st_recommendations :: json
  st_tags :: json
  error :: json
  visited :: "node list"
  calls :: "prompt list"

definition enter :: "node \<Rightarrow> prompt list \<Rightarrow> CallState \<Rightarrow> CallState" where
  "enter n ps state = state\<lparr>visited := visited state @ [n], calls := calls state @ ps\<rparr>"

definition intake_node :: "chat_model \<Rightarrow> CallState \<Rightarrow> CallState" where
  "intake_node llm state0 =
     (let (ps, r) = CallIntakeAgent_process llm (raw_input state0);
          state = enter Intake ps state0 in
      case r of
        Inl e \<Rightarrow> state\<lparr>error := JStr (''Intake error: '' @ e)\<rparr>
      | Inr intake_data' \<Rightarrow>
          (let state = state\<lparr>intake_data := intake_data'\<rparr> in
           case dict_item intake_data' ''is_valid'' of
             Inl e \<Rightarrow> state\<lparr>error := JStr (''Intake error: '' @ e)\<rparr>
           | Inr v \<Rightarrow>
               if \<not> truthy v then
                 (case dict_item intake_data' ''reason'' of
                    Inl e \<Rightarrow> state\<lparr>error := JStr (''Intake error: '' @ e)\<rparr>
                  | Inr reason \<Rightarrow> state\<lparr>error := reason\<rparr>)
               else state))"

definition transcription_node :: "pylib \<Rightarrow> CallState \<Rightarrow> CallState" where
  "transcription_node lib state0 =
     (let state = enter Transcription [] state0 in
      case TranscriptionAgent_process lib (intake_data state) of
        Inl e \<Rightarrow> state\<lparr>error := JStr (''Transcription error: '' @ e)\<rparr>
      | Inr t \<Rightarrow> state\<lparr>st_transcript := Some t\<rparr>)"

definition summarization_node :: "pylib \<Rightarrow> chat_model \<Rightarrow> CallState \<Rightarrow> CallState" where
  "summarization_node lib llm state0 =
     (let (ps, r) = SummarizationAgent_process lib llm (st_transcript state0);
          state = enter Summarization ps state0 in
      case r of
        Inl e \<Rightarrow> state\<lparr>error := JStr (''Summarization error: '' @ e)\<rparr>
      | Inr s \<Rightarrow> state\<lparr>st_summary := Some s\<rparr>)"

definition quality_scoring_node :: "pylib \<Rightarrow> chat_model \<Rightarrow> CallState \<Rightarrow> CallState" where
  "quality_scoring_node lib llm state0 =
     (let (ps, r) = QualityScoringAgent_process lib llm (st_transcript state0) (st_summary state0);
          state = enter Quality_scoring ps state0 in
      case r of
        Inl e \<Rightarrow> state\<lparr>error := JStr (''Quality scoring error: '' @ e)\<rparr>
      | Inr q \<Rightarrow> state\<lparr>st_qa_scores := Some q\<rparr>)"

definition routing_node :: "chat_model \<Rightarrow> CallState \<Rightarrow> CallState" where
  "routing_node llm state0 =
     (let (ps, r) = RoutingAgent_process llm (st_summary state0) (st_qa_scores state0);
          state = enter Routing ps state0 in
      case r of
        Inl e \<Rightarrow> state\<lparr>error := JStr (''Routing error: '' @ e)\<rparr>
      | Inr d \<Rightarrow> state\<lparr>st_recommendations := rd_recommendations d, st_tags := rd_tags d\<rparr>)"

text \<open>
  The compiled graph: the entry point \<open>intake\<close>, the conditional edge that reads
  \<open>state.get("intake_data", {}).get("is_valid", False)\<close>, and the four plain edges
  \<open>transcription \<rightarrow> summarization \<rightarrow> quality_scoring \<rightarrow> routing \<rightarrow> END\<close>.
\<close>

definition intake_edge :: "CallState \<Rightarrow> bool" where
  "intake_edge state = truthy (dict_get (intake_data state) ''is_valid'' (JBool False))"

definition graph_invoke :: "pylib \<Rightarrow> chat_model \<Rightarrow> CallState \<Rightarrow> CallState" where
  "graph_invoke lib llm initial_state =
     (let s1 = intake_node llm initial_state in
      if intake_edge s1 then
        routing_node llm
          (quality_scoring_node lib llm
             (summarization_node lib llm
                (transcription_node lib s1)))
      else s1)"

definition initial_state :: "string \<Rightarrow> CallState" where
  "initial_state raw =
     \<lparr>raw_input = raw, intake_data = [], st_transcript = None, st_summary = None,
      st_qa_scores = None, st_recommendations = JList [], st_tags = JList [], error = JNull,
      visited = [], calls = []\<rparr>"

text \<open>What \<open>process_call\<close> returns: the dict \<open>{"error": e}\<close> or a \<open>CallAnalysis\<close>.\<close>

datatype outcome = ErrorRecord json | Analysis CallAnalysis

definition build_analysis :: "pylib \<Rightarrow> CallState \<Rightarrow> outcome" where
  "build_analysis lib result =
     (if truthy (error result) then ErrorRecord (error result)
      else
        (case mk_CallAnalysis lib (st_transcript result) (st_summary result)
                (st_qa_scores result) (st_recommendations result) (st_tags result) of
           Inr analysis \<Rightarrow> Analysis analysis
         | Inl e \<Rightarrow> ErrorRecord (JStr (''Failed to build analysis: '' @ e))))"

text \<open>
  \<open>create_callsense_graph\<close> first builds the five agents. Four of them construct a
  \<open>ChatOpenAI\<close> client, outside any \<open>try\<close>: \<open>client\<close> is what that construction gives, the
  text of the exception it raises (a missing API key, for instance) or the model. The
  function returns the compiled graph, or raises.
\<close>

definition create_callsense_graph ::
  "pylib \<Rightarrow> exn + chat_model \<Rightarrow> exn + (CallState \<Rightarrow> CallState)"
where
  "create_callsense_graph lib client =
     (case client of
        Inl e \<Rightarrow> Inl e
      | Inr llm \<Rightarrow> Inr (graph_invoke lib llm))"

text \<open>
  \<open>process_call\<close>: an exception of \<open>create_callsense_graph\<close> is not caught, so the call
  raises (\<open>Inl\<close>); otherwise it returns (\<open>Inr\<close>) the error record or the analysis.
\<close>

definition process_call :: "pylib \<Rightarrow> exn + chat_model \<Rightarrow> string \<Rightarrow> exn + outcome" where
  "process_call lib client raw =
     (case create_callsense_graph lib client of
        Inl e \<Rightarrow> Inl e
      | Inr graph \<Rightarrow> Inr (build_analysis lib (graph (initial_state raw))))"

subsection \<open>The states of a run\<close>

text \<open>
  The state after each node of a run on \<open>raw\<close>, and what the agent of each later stage
  returned or raised when its node called it. They name the intermediate values of
  \<open>graph_invoke\<close>; the nodes after \<open>intake\<close> are run only when the conditional edge
  continues.
\<close>

definition after_intake :: "chat_model \<Rightarrow> string \<Rightarrow> CallState" where
  "after_intake llm raw = intake_node llm (initial_state raw)"

definition after_transcription :: "pylib \<Rightarrow> chat_model \<Rightarrow> string \<Rightarrow> CallState" where
  "after_transcription lib llm raw = transcription_node lib (after_intake llm raw)"

definition after_summarization :: "pylib \<Rightarrow> chat_model \<Rightarrow> string \<Rightarrow> CallState" where
  "after_summarization lib llm raw = summarization_node lib llm (after_transcription lib llm raw)"

definition after_quality_scoring :: "pylib \<Rightarrow> chat_model \<Rightarrow> string \<Rightarrow> CallState" where
  "after_quality_scoring lib llm raw =
     quality_scoring_node lib llm (after_summarization lib llm raw)"

definition after_routing :: "pylib \<Rightarrow> chat_model \<Rightarrow> string \<Rightarrow> CallState" where
  "after_routing lib llm raw = routing_node llm (after_quality_scoring lib llm raw)"

definition transcription_outcome :: "pylib \<Rightarrow> chat_model \<Rightarrow> string \<Rightarrow> exn + CallTranscript" where
  "transcription_outcome lib llm raw =
     TranscriptionAgent_process lib (intake_data (after_intake llm raw))"




text \<open>The state that \<open>graph.invoke\<close> returns to \<open>process_call\<close>.\<close>

definition final_state :: "pylib \<Rightarrow> chat_model \<Rightarrow> string \<Rightarrow> CallState" where
  "final_state lib llm raw = graph_invoke lib llm (initial_state raw)"

text \<open>The states of the run in the order in which the nodes produced them.\<close>

definition run_states :: "pylib \<Rightarrow> chat_model \<Rightarrow> string \<Rightarrow> CallState list" where
  "run_states lib llm raw =
     (if intake_edge (after_intake llm raw)
      then [after_intake llm raw, after_transcription lib llm raw,
            after_summarization lib llm raw, after_quality_scoring lib llm raw,
            after_routing lib llm raw]
      else [after_intake llm raw])"

section \<open>audio_utils.py and the handler of the button \<open>Analyze Call\<close> in app.py\<close>

text \<open>
  The file system is the set of the paths that exist. \<open>NamedTemporaryFile(delete=False)\<close>
  creates the file at a path \<open>tmp\<close> that the operating system picks, so \<open>tmp\<close> is an argument.
\<close>

type_synonym filesystem = "string set"

definition save_uploaded_audio :: "string \<Rightarrow> filesystem \<Rightarrow> string \<times> filesystem" where
  "save_uploaded_audio tmp fs = (tmp, insert tmp fs)"

text \<open>
  \<open>transcribe_audio\<close>: \<open>whisper\<close> is the speech-to-text call on the file, which raises or
  returns the transcript; the file is opened for reading only.
\<close>

definition transcribe_audio :: "(string \<Rightarrow> exn + string) \<Rightarrow> string \<Rightarrow> exn + string" where
  "transcribe_audio whisper audio_file_path =
     (case whisper audio_file_path of
        Inl e \<Rightarrow> Inl (''Audio transcription failed: '' @ e)
      | Inr txt \<Rightarrow> Inr txt)"

text \<open>
  \<open>cleanup_temp_file\<close>: \<open>os.remove\<close> may raise (\<open>remove_ok\<close> is false for such a path), and
  the handler of the \<open>try\<close> ignores that.
\<close>

definition cleanup_temp_file :: "(string \<Rightarrow> bool) \<Rightarrow> string \<Rightarrow> filesystem \<Rightarrow> filesystem" where
  "cleanup_temp_file remove_ok file_path fs =
     (if file_path \<in> fs then (if remove_ok file_path then fs - {file_path} else fs) else fs)"

text \<open>The characters that \<open>str.strip()\<close> removes, among the first 256 code points.\<close>

definition py_isspace :: "char \<Rightarrow> bool" where
  "py_isspace c =
     (let n = (of_char c :: nat) in (9 \<le> n \<and> n \<le> 13) \<or> (28 \<le> n \<and> n \<le> 32) \<or> n = 133 \<or> n = 160)"

definition py_strip :: "string \<Rightarrow> string" where
  "py_strip s = rev (dropWhile py_isspace (rev (dropWhile py_isspace s)))"

text \<open>
  What the handler leaves behind: the analysis it stored in the session, if any, the file
  system, and the exception that left the handler, if any. The calls that only draw on the
  page are left out (they are taken not to raise). \<open>audio_file\<close> is the uploaded file, if
  there is one, \<open>typed_text\<close> the content of the text area. An exception of \<open>process_call\<close>
  passes through the \<open>finally\<close> block and leaves the handler.
\<close>

record handler_result =
  analysis_result :: "outcome option"
  files :: filesystem
  raised :: "exn option"

definition analyze_call_handler ::
  "pylib \<Rightarrow> exn + chat_model \<Rightarrow> (string \<Rightarrow> exn + string) \<Rightarrow> (string \<Rightarrow> bool) \<Rightarrow> string
     \<Rightarrow> string option \<Rightarrow> string \<Rightarrow> filesystem \<Rightarrow> handler_result"
where
  "analyze_call_handler lib client whisper remove_ok tmp audio_file typed_text fs0 =
     (let (transcript_to_process, temp_file_path, fs) =
            (case audio_file of
               Some uploaded \<Rightarrow>
                 (let (path, fs1) = save_uploaded_audio tmp fs0 in
                  case transcribe_audio whisper path of
                    Inr t \<Rightarrow> (Some t, Some path, fs1)
                  | Inl e \<Rightarrow>
                      (None, Some path,
                       if path \<noteq> [] then cleanup_temp_file remove_ok path fs1 else fs1))
             | None \<Rightarrow>
                 if typed_text \<noteq> [] \<and> py_strip typed_text \<noteq> []
                 then (Some typed_text, None, fs0)
                 else (None, None, fs0))
      in
      case transcript_to_process of
        None \<Rightarrow> \<lparr>analysis_result = None, files = fs, raised = None\<rparr>
      | Some t \<Rightarrow>
          if t = [] then \<lparr>analysis_result = None, files = fs, raised = None\<rparr>
          else
            (let result = process_call lib client t;
                 fs' = (case temp_file_path of
                          None \<Rightarrow> fs
                        | Some path \<Rightarrow>
                            if path \<noteq> [] then cleanup_temp_file remove_ok path fs else fs)
             in case result of
                  Inl e \<Rightarrow> \<lparr>analysis_result = None, files = fs', raised = Some e\<rparr>
                | Inr (ErrorRecord e) \<Rightarrow> \<lparr>analysis_result = None, files = fs', raised = None\<rparr>
                | Inr (Analysis a) \<Rightarrow>
                    \<lparr>analysis_result = Some (Analysis a), files = fs', raised = None\<rparr>))"

section \<open>Inputs for the examples\<close>

text \<open>
  A library in which every coercion that depends on the version is refused, and models
  that answer each stage in a fixed way.
\<close>

definition strict_lib :: pylib where
  "strict_lib =
     \<lparr>coerce_int = (\<lambda>v. None), coerce_str = (\<lambda>v. None), float_of_str = (\<lambda>s. None),
      validation_text = (\<lambda>m. ''validation error for '' @ m)\<rparr>"

text \<open>Every response is text that is not JSON.\<close>

definition llm_malformed :: chat_model where
  "llm_malformed p = Inr Malformed"

text \<open>Every response is the empty object \<open>{}\<close>.\<close>

definition llm_empty_object :: chat_model where
  "llm_empty_object p = Inr (Decoded (JDict []))"


text \<open>Intake rejects the input and gives the reason \<open>r\<close>.\<close>

definition llm_reject :: "json \<Rightarrow> chat_model" where
  "llm_reject r p = Inr (Decoded (JDict [(''is_valid'', JBool False), (''reason'', r)]))"

text \<open>
  Every response is an object with fields of the wrong type: a string for \<open>is_valid\<close>, a
  number for \<open>recommendations\<close>, \<open>null\<close> for \<open>customer_issue\<close>, a word for \<open>empathy\<close>.
\<close>

definition llm_wrong_types :: chat_model where
  "llm_wrong_types p =
     Inr (Decoded (JDict [(''is_valid'', JStr ''yes''), (''recommendations'', JInt 5),
                          (''customer_issue'', JNull), (''empathy'', JStr ''high'')]))"

text \<open>
  Every response is the object that holds the defaults of the stage that asks (for the
  routing stage, those of the fallback summary).
\<close>

definition llm_stage_defaults :: chat_model where
  "llm_stage_defaults p =
     (case p of
        IntakePrompt raw \<Rightarrow> Inr (Decoded (JDict intake_defaults))
      | SummarizationPrompt t \<Rightarrow> Inr (Decoded (JDict summary_defaults))
      | QualityPrompt t i r s \<Rightarrow> Inr (Decoded (JDict qa_defaults))
      | RoutingPrompt c s i r e p q k \<Rightarrow> Inr (Decoded (JDict (routing_defaults summary_fallback))))"

text \<open>An empathy score of 15 in an otherwise empty object.\<close>

definition llm_empathy_15 :: chat_model where
  "llm_empathy_15 p = Inr (Decoded (JDict [(''empathy'', JInt 15)]))"

definition example_transcript :: CallTranscript where
  "example_transcript = \<lparr>transcript_text = ''hi'', speaker_count = Some 2, duration = None\<rparr>"

text \<open>
  A model that answers the four prompts of the run on \<open>hi\<close> under \<open>llm_malformed\<close> as
  \<open>llm_malformed\<close> does, and raises on every other prompt.
\<close>

definition llm_other :: chat_model where
  "llm_other p =
     (if p \<in> set [IntakePrompt ''hi'', SummarizationPrompt ''hi'',
                   quality_prompt example_transcript summary_fallback,
                   routing_prompt summary_fallback qa_fallback]
      then Inr Malformed else Inl ''not asked in this run'')"

section \<open>Auxiliary facts\<close>

subsection \<open>The \<open>try\<close> statements\<close>

lemma intake_undecodable: "undecodable c \<Longrightarrow> intake_try raw c = intake_fallback raw"
  by (cases c rule: undecodable.cases) (simp_all add: intake_try_def)

lemma summary_undecodable: "undecodable c \<Longrightarrow> summary_try lib c = summary_fallback"
  by (cases c rule: undecodable.cases) (simp_all add: summary_try_def)

lemma qa_undecodable: "undecodable c \<Longrightarrow> qa_try lib c = qa_fallback"
  by (cases c rule: undecodable.cases) (simp_all add: qa_try_def)

lemma routing_undecodable: "undecodable c \<Longrightarrow> routing_try s c = routing_fallback s"
  by (cases c rule: undecodable.cases) (simp_all add: routing_try_def)

lemma mk_QAScore_range:
  "mk_QAScore e p r c ov = Some q \<Longrightarrow>
     score_ok (empathy q) \<and> score_ok (professionalism q) \<and> score_ok (qa_resolution q)
     \<and> score_ok (compliance q) \<and> score_ok (overall q)"
  by (auto simp: mk_QAScore_def split: if_splits)

lemma qa_decode_range:
  "qa_decode lib v = Some q \<Longrightarrow>
     score_ok (empathy q) \<and> score_ok (professionalism q) \<and> score_ok (qa_resolution q)
     \<and> score_ok (compliance q) \<and> score_ok (overall q)"
  by (cases v) (auto simp: bind_eq_Some_conv dest!: mk_QAScore_range)

lemma qa_fallback_range:
  "score_ok (empathy qa_fallback) \<and> score_ok (professionalism qa_fallback) \<and> score_ok (qa_resolution qa_fallback)
     \<and> score_ok (compliance qa_fallback) \<and> score_ok (overall qa_fallback)"
  by (simp add: qa_fallback_def score_ok_def)

lemma qa_try_range:
  "score_ok (empathy (qa_try lib c)) \<and> score_ok (professionalism (qa_try lib c))
     \<and> score_ok (qa_resolution (qa_try lib c))
     \<and> score_ok (compliance (qa_try lib c)) \<and> score_ok (overall (qa_try lib c))"
proof (cases "json_loads c \<bind> qa_decode lib")
  case None
  then show ?thesis using qa_fallback_range by (simp add: qa_try_def)
next
  case (Some q)
  then obtain v where "qa_decode lib v = Some q" by (auto simp: bind_eq_Some_conv)
  from qa_decode_range [OF this] Some show ?thesis by (simp add: qa_try_def)
qed

subsection \<open>Missing and rejected fields\<close>

lemma dict_get_append:
  "dict_get (d @ ds) k dflt = dict_get d k (dict_get ds k dflt)"
  by (simp add: dict_get_def map_add_def split: option.splits)

lemma dict_get_Cons:
  "dict_get ((k', v) # d) k dflt = (if k = k' then v else dict_get d k dflt)"
  by (simp add: dict_get_def)

lemma dict_get_Nil: "dict_get [] k dflt = dflt"
  by (simp add: dict_get_def)

lemma intake_try_defaults:
  "intake_try raw (Decoded (JDict (data @ intake_defaults)))
     = intake_try raw (Decoded (JDict data))"
  by (simp add: intake_try_def dict_get_append intake_defaults_def dict_get_Cons dict_get_Nil)

lemma summary_try_defaults:
  "summary_try lib (Decoded (JDict (data @ summary_defaults)))
     = summary_try lib (Decoded (JDict data))"
  by (simp add: summary_try_def dict_get_append summary_defaults_def dict_get_Cons dict_get_Nil)

lemma qa_try_defaults:
  "qa_try lib (Decoded (JDict (data @ qa_defaults))) = qa_try lib (Decoded (JDict data))"
  by (simp add: qa_try_def dict_get_append qa_defaults_def dict_get_Cons dict_get_Nil)

lemma routing_try_defaults:
  "routing_try s (Decoded (JDict (data @ routing_defaults s)))
     = routing_try s (Decoded (JDict data))"
  by (simp add: routing_try_def dict_get_append routing_defaults_def dict_get_Cons dict_get_Nil)

lemma summary_rejects:
  assumes "(k, d) \<in> set summary_defaults"
      and "\<not> summary_field_ok lib k (dict_get data k d)"
  shows "summary_try lib (Decoded (JDict data)) = summary_fallback"
proof -
  have "summary_decode lib (JDict data) = None"
    using assms
    by (auto simp: summary_defaults_def summary_field_ok_def mk_CallSummary_def
        split: Option.bind_splits)
  then show ?thesis by (simp add: summary_try_def)
qed

lemma qa_rejects:
  assumes "(k, d) \<in> set qa_defaults"
      and "\<not> qa_field_ok lib (dict_get data k d)"
  shows "qa_try lib (Decoded (JDict data)) = qa_fallback"
proof -
  have "qa_decode lib (JDict data) = None"
    using assms
    by (auto simp: qa_defaults_def qa_field_ok_def mk_QAScore_def
        split: Option.bind_splits option.splits)
  then show ?thesis by (simp add: qa_try_def)
qed

subsection \<open>What each node changes\<close>

lemma graph_invoke_run:
  "graph_invoke lib llm (initial_state raw) =
     (if intake_edge (after_intake llm raw) then after_routing lib llm raw
      else after_intake llm raw)"
  by (simp add: graph_invoke_def after_routing_def after_quality_scoring_def
      after_summarization_def after_transcription_def after_intake_def Let_def)

lemma transcription_node_fields:
  "visited (transcription_node lib st) = visited st @ [Transcription]"
  "calls (transcription_node lib st) = calls st"
  "intake_data (transcription_node lib st) = intake_data st"
  "st_summary (transcription_node lib st) = st_summary st"
  "st_qa_scores (transcription_node lib st) = st_qa_scores st"
  "st_recommendations (transcription_node lib st) = st_recommendations st"
  "st_tags (transcription_node lib st) = st_tags st"
  "st_transcript (transcription_node lib st) =
     (case TranscriptionAgent_process lib (intake_data st) of
        Inl e \<Rightarrow> st_transcript st | Inr t \<Rightarrow> Some t)"
  "error (transcription_node lib st) =
     (case TranscriptionAgent_process lib (intake_data st) of
        Inl e \<Rightarrow> JStr (''Transcription error: '' @ e) | Inr t \<Rightarrow> error st)"
  by (simp_all add: transcription_node_def enter_def Let_def split: sum.splits)

lemma summarization_node_fields:
  "visited (summarization_node lib llm st) = visited st @ [Summarization]"
  "calls (summarization_node lib llm st) =
     calls st @ fst (SummarizationAgent_process lib llm (st_transcript st))"
  "intake_data (summarization_node lib llm st) = intake_data st"
  "st_transcript (summarization_node lib llm st) = st_transcript st"
  "st_qa_scores (summarization_node lib llm st) = st_qa_scores st"
  "st_recommendations (summarization_node lib llm st) = st_recommendations st"
  "st_tags (summarization_node lib llm st) = st_tags st"
  "st_summary (summarization_node lib llm st) =
     (case snd (SummarizationAgent_process lib llm (st_transcript st)) of
        Inl e \<Rightarrow> st_summary st | Inr s \<Rightarrow> Some s)"
  "error (summarization_node lib llm st) =
     (case snd (SummarizationAgent_process lib llm (st_transcript st)) of
        Inl e \<Rightarrow> JStr (''Summarization error: '' @ e) | Inr s \<Rightarrow> error st)"
  by (simp_all add: summarization_node_def enter_def Let_def split: sum.splits prod.splits)

lemma quality_scoring_node_fields:
  "visited (quality_scoring_node lib llm st) = visited st @ [Quality_scoring]"
  "calls (quality_scoring_node lib llm st) =
     calls st @ fst (QualityScoringAgent_process lib llm (st_transcript st) (st_summary st))"
  "intake_data (quality_scoring_node lib llm st) = intake_data st"
  "st_transcript (quality_scoring_node lib llm st) = st_transcript st"
  "st_summary (quality_scoring_node lib llm st) = st_summary st"
  "st_recommendations (quality_scoring_node lib llm st) = st_recommendations st"
  "st_tags (quality_scoring_node lib llm st) = st_tags st"
  "st_qa_scores (quality_scoring_node lib llm st) =
     (case snd (QualityScoringAgent_process lib llm (st_transcript st) (st_summary st)) of
        Inl e \<Rightarrow> st_qa_scores st | Inr q \<Rightarrow> Some q)"
  "error (quality_scoring_node lib llm st) =
     (case snd (QualityScoringAgent_process lib llm (st_transcript st) (st_summary st)) of
        Inl e \<Rightarrow> JStr (''Quality scoring error: '' @ e) | Inr q \<Rightarrow> error st)"
  by (simp_all add: quality_scoring_node_def enter_def Let_def split: sum.splits prod.splits)

lemma routing_node_fields:
  "visited (routing_node llm st) = visited st @ [Routing]"
  "calls (routing_node llm st) =
     calls st @ fst (RoutingAgent_process llm (st_summary st) (st_qa_scores st))"
  "intake_data (routing_node llm st) = intake_data st"
  "st_transcript (routing_node llm st) = st_transcript st"
  "st_summary (routing_node llm st) = st_summary st"
  "st_qa_scores (routing_node llm st) = st_qa_scores st"
  "st_recommendations (routing_node llm st) =
     (case snd (RoutingAgent_process llm (st_summary st) (st_qa_scores st)) of
        Inl e \<Rightarrow> st_recommendations st | Inr d \<Rightarrow> rd_recommendations d)"
  "st_tags (routing_node llm st) =
     (case snd (RoutingAgent_process llm (st_summary st) (st_qa_scores st)) of
        Inl e \<Rightarrow> st_tags st | Inr d \<Rightarrow> rd_tags d)"
  "error (routing_node llm st) =
     (case snd (RoutingAgent_process llm (st_summary st) (st_qa_scores st)) of
        Inl e \<Rightarrow> JStr (''Routing error: '' @ e) | Inr d \<Rightarrow> error st)"
  by (simp_all add: routing_node_def enter_def Let_def split: sum.splits prod.splits)

lemma intake_try_cases:
  "\<exists>v r n. intake_try raw c =
     [(''is_valid'', v), (''reason'', r), (''estimated_speakers'', n), (''transcript'', JStr raw)]"
proof (cases c)
  case Malformed
  then show ?thesis by (simp add: intake_try_def intake_fallback_def)
next
  case (Decoded v)
  then show ?thesis by (cases v) (simp_all add: intake_try_def intake_fallback_def)
qed

lemma intake_try_is_valid:
  "dict_item (intake_try raw c) ''is_valid'' = Inr (dict_get (intake_try raw c) ''is_valid'' dflt)"
  using intake_try_cases [of raw c]
  by (auto simp: dict_item_def dict_get_def)

lemma intake_try_reason:
  "dict_item (intake_try raw c) ''reason'' = Inr (dict_get (intake_try raw c) ''reason'' dflt)"
  using intake_try_cases [of raw c]
  by (auto simp: dict_item_def dict_get_def)

lemma intake_try_transcript:
  "dict_item (intake_try raw c) ''transcript'' = Inr (JStr raw)"
  using intake_try_cases [of raw c]
  by (auto simp: dict_item_def dict_get_def)

lemma intake_node_fields:
  "visited (intake_node llm st) = visited st @ [Intake]"
  "calls (intake_node llm st) = calls st @ [IntakePrompt (raw_input st)]"
  "st_transcript (intake_node llm st) = st_transcript st"
  "st_summary (intake_node llm st) = st_summary st"
  "st_qa_scores (intake_node llm st) = st_qa_scores st"
  "st_recommendations (intake_node llm st) = st_recommendations st"
  "st_tags (intake_node llm st) = st_tags st"
  "intake_data (intake_node llm st) =
     (case llm (IntakePrompt (raw_input st)) of
        Inl e \<Rightarrow> intake_data st | Inr c \<Rightarrow> intake_try (raw_input st) c)"
  by (simp_all add: intake_node_def CallIntakeAgent_process_def enter_def Let_def
      split: sum.splits prod.splits)

lemma intake_node_error:
  "error (intake_node llm st) =
     (case llm (IntakePrompt (raw_input st)) of
        Inl e \<Rightarrow> JStr (''Intake error: '' @ e)
      | Inr c \<Rightarrow>
          (if truthy (dict_get (intake_try (raw_input st) c) ''is_valid'' (JBool False))
           then error st
           else dict_get (intake_try (raw_input st) c) ''reason'' JNull))"
  by (simp add: intake_node_def CallIntakeAgent_process_def enter_def Let_def
      intake_try_is_valid [where dflt = "JBool False"] intake_try_reason [where dflt = JNull]
      split: sum.splits prod.splits)


subsection \<open>The states of a run\<close>

lemma final_state_run:
  "final_state lib llm raw =
     (if intake_edge (after_intake llm raw) then after_routing lib llm raw
      else after_intake llm raw)"
  by (simp add: final_state_def graph_invoke_run)

lemma process_call_final:
  "process_call lib (Inr llm) raw = Inr (build_analysis lib (final_state lib llm raw))"
  by (simp add: process_call_def create_callsense_graph_def final_state_def)

lemma process_call_raises: "process_call lib (Inl e) raw = Inl e"
  by (simp add: process_call_def create_callsense_graph_def)

lemma last_run_states: "last (run_states lib llm raw) = final_state lib llm raw"
  by (simp add: run_states_def final_state_run)

lemma after_intake_fields:
  "visited (after_intake llm raw) = [Intake]"
  "calls (after_intake llm raw) = [IntakePrompt raw]"
  "st_transcript (after_intake llm raw) = None"
  "st_summary (after_intake llm raw) = None"
  "st_qa_scores (after_intake llm raw) = None"
  "st_recommendations (after_intake llm raw) = JList []"
  "st_tags (after_intake llm raw) = JList []"
  by (simp_all add: after_intake_def intake_node_fields initial_state_def)

lemma after_intake_data:
  "intake_data (after_intake llm raw) =
     (case llm (IntakePrompt raw) of Inl e \<Rightarrow> [] | Inr c \<Rightarrow> intake_try raw c)"
  by (simp add: after_intake_def intake_node_fields initial_state_def split: sum.splits)

lemma after_intake_error:
  "error (after_intake llm raw) =
     (case llm (IntakePrompt raw) of
        Inl e \<Rightarrow> JStr (''Intake error: '' @ e)
      | Inr c \<Rightarrow>
          (if truthy (dict_get (intake_try raw c) ''is_valid'' (JBool False)) then JNull
           else dict_get (intake_try raw c) ''reason'' JNull))"
  by (simp add: after_intake_def intake_node_error initial_state_def split: sum.splits)



lemma rejected_run:
  assumes "snd (CallIntakeAgent_process llm raw) = Inr d"
      and "dict_item d ''is_valid'' = Inr v" and "\<not> truthy v"
      and "dict_item d ''reason'' = Inr r"
  shows "\<not> intake_edge (after_intake llm raw)" and "error (after_intake llm raw) = r"
proof -
  from assms(1) obtain c where c: "llm (IntakePrompt raw) = Inr c" and d: "d = intake_try raw c"
    by (auto simp: CallIntakeAgent_process_def Let_def split: sum.splits)
  from assms(2) have v: "dict_get d ''is_valid'' (JBool False) = v"
    by (auto simp: dict_item_def dict_get_def split: option.splits)
  from assms(4) have r: "dict_get d ''reason'' JNull = r"
    by (auto simp: dict_item_def dict_get_def split: option.splits)
  from c d v assms(3) show "\<not> intake_edge (after_intake llm raw)"
    by (simp add: intake_edge_def after_intake_data)
  from c d v r assms(3) show "error (after_intake llm raw) = r"
    by (simp add: after_intake_error)
qed

lemma after_transcription_fields:
  "visited (after_transcription lib llm raw) = [Intake, Transcription]"
  "calls (after_transcription lib llm raw) = [IntakePrompt raw]"
  "st_summary (after_transcription lib llm raw) = None"
  "st_qa_scores (after_transcription lib llm raw) = None"
  "st_transcript (after_transcription lib llm raw) =
     (case transcription_outcome lib llm raw of Inl e \<Rightarrow> None | Inr t \<Rightarrow> Some t)"
  "error (after_transcription lib llm raw) =
     (case transcription_outcome lib llm raw of
        Inl e \<Rightarrow> JStr (''Transcription error: '' @ e)
      | Inr t \<Rightarrow> error (after_intake llm raw))"
  by (simp_all add: after_transcription_def transcription_node_fields after_intake_fields
      transcription_outcome_def split: sum.splits)






subsection \<open>Building the analysis\<close>


lemma build_analysis_no_transcript:
  "st_transcript st = None \<Longrightarrow> \<exists>e. build_analysis lib st = ErrorRecord e"
  by (simp add: build_analysis_def mk_CallAnalysis_def)

lemma build_analysis_truthy:
  "truthy (error st) \<Longrightarrow> build_analysis lib st = ErrorRecord (error st)"
  by (simp add: build_analysis_def)


subsection \<open>A stage that raises makes the later stages raise\<close>










subsection \<open>The prompts of a run\<close>

lemma after_summarization_calls:
  "calls (after_summarization lib llm raw) =
     IntakePrompt raw #
       fst (SummarizationAgent_process lib llm (st_transcript (after_transcription lib llm raw)))"
  by (simp add: after_summarization_def summarization_node_fields after_transcription_fields)

lemma after_quality_scoring_calls:
  "calls (after_quality_scoring lib llm raw) =
     calls (after_summarization lib llm raw) @
       fst (QualityScoringAgent_process lib llm
              (st_transcript (after_summarization lib llm raw))
              (st_summary (after_summarization lib llm raw)))"
  by (simp add: after_quality_scoring_def quality_scoring_node_fields)

lemma after_routing_calls:
  "calls (after_routing lib llm raw) =
     calls (after_quality_scoring lib llm raw) @
       fst (RoutingAgent_process llm
              (st_summary (after_quality_scoring lib llm raw))
              (st_qa_scores (after_quality_scoring lib llm raw)))"
  by (simp add: after_routing_def routing_node_fields)




subsection \<open>Models that agree on the prompts of a run\<close>

lemma intake_process_agree:
  "llm' (IntakePrompt raw) = llm (IntakePrompt raw) \<Longrightarrow>
     CallIntakeAgent_process llm' raw = CallIntakeAgent_process llm raw"
  by (simp add: CallIntakeAgent_process_def)

lemma summarization_process_agree:
  "\<forall>p \<in> set (fst (SummarizationAgent_process lib llm t)). llm' p = llm p \<Longrightarrow>
     SummarizationAgent_process lib llm' t = SummarizationAgent_process lib llm t"
  by (cases t) (auto simp: SummarizationAgent_process_def Let_def split: sum.splits)

lemma quality_process_agree:
  "\<forall>p \<in> set (fst (QualityScoringAgent_process lib llm t s)). llm' p = llm p \<Longrightarrow>
     QualityScoringAgent_process lib llm' t s = QualityScoringAgent_process lib llm t s"
  by (cases t; cases s) (auto simp: QualityScoringAgent_process_def Let_def split: sum.splits)

lemma routing_process_agree:
  "\<forall>p \<in> set (fst (RoutingAgent_process llm s q)). llm' p = llm p \<Longrightarrow>
     RoutingAgent_process llm' s q = RoutingAgent_process llm s q"
  by (cases s; cases q) (auto simp: RoutingAgent_process_def Let_def split: sum.splits)

lemma after_intake_agree:
  "llm' (IntakePrompt raw) = llm (IntakePrompt raw) \<Longrightarrow> after_intake llm' raw = after_intake llm raw"
  by (simp add: after_intake_def intake_node_def CallIntakeAgent_process_def initial_state_def)

lemma after_routing_agree:
  assumes "\<forall>p \<in> set (calls (after_routing lib llm raw)). llm' p = llm p"
  shows "after_routing lib llm' raw = after_routing lib llm raw"
proof -
  from assms have i: "llm' (IntakePrompt raw) = llm (IntakePrompt raw)"
    and s: "\<forall>p \<in> set (fst (SummarizationAgent_process lib llm
                (st_transcript (after_transcription lib llm raw)))). llm' p = llm p"
    and q: "\<forall>p \<in> set (fst (QualityScoringAgent_process lib llm
              (st_transcript (after_summarization lib llm raw))
              (st_summary (after_summarization lib llm raw)))). llm' p = llm p"
    and r: "\<forall>p \<in> set (fst (RoutingAgent_process llm
              (st_summary (after_quality_scoring lib llm raw))
              (st_qa_scores (after_quality_scoring lib llm raw)))). llm' p = llm p"
    by (simp_all add: after_routing_calls after_quality_scoring_calls after_summarization_calls)
  have t: "after_transcription lib llm' raw = after_transcription lib llm raw"
    by (simp add: after_transcription_def after_intake_agree [where llm' = llm' and llm = llm, OF i])
  have s': "after_summarization lib llm' raw = after_summarization lib llm raw"
    by (simp add: after_summarization_def t summarization_node_def
        summarization_process_agree [OF s])
  have q': "after_quality_scoring lib llm' raw = after_quality_scoring lib llm raw"
    by (simp add: after_quality_scoring_def s' quality_scoring_node_def
        quality_process_agree [OF q])
  show ?thesis
    by (simp add: after_routing_def q' routing_node_def routing_process_agree [OF r])
qed

subsection \<open>The temporary file\<close>

text \<open>
  When the transcription raises or returns a text that is not empty, and \<open>os.remove\<close>
  succeeds, the handler leaves no temporary file.
\<close>

lemma temp_file_removed_otherwise:
  assumes "remove_ok tmp" and "tmp \<noteq> []" and "whisper tmp \<noteq> Inr []"
  shows "tmp \<notin> files (analyze_call_handler lib client whisper remove_ok tmp (Some a) txt fs)"
  using assms
  by (auto simp: analyze_call_handler_def save_uploaded_audio_def transcribe_audio_def
      cleanup_temp_file_def Let_def split: sum.splits outcome.splits)

section \<open>The claims\<close>

subsection \<open>C1: a stage that raises\<close>




subsection \<open>C2: intake rejects the input\<close>

text \<open>
  C2, as stated, fails when the reason is the empty string: the error field is falsy, so
  \<open>process_call\<close> goes on to build the analysis, and the record it returns carries the
  message of that failure instead of the reason.
\<close>

theorem intake_rejection_counterexample:
  "snd (CallIntakeAgent_process (llm_reject (JStr '''')) ''hi'')
     = Inr [(''is_valid'', JBool False), (''reason'', JStr ''''),
            (''estimated_speakers'', JInt 2), (''transcript'', JStr ''hi'')]
   \<and> process_call strict_lib (Inr (llm_reject (JStr ''''))) ''hi''
       = Inr (ErrorRecord (JStr (''Failed to build analysis: ''
                              @ validation_text strict_lib ''CallAnalysis'')))
   \<and> process_call strict_lib (Inr (llm_reject (JStr ''''))) ''hi'' \<noteq> Inr (ErrorRecord (JStr ''''))"
  by code_simp

text \<open>
  C2 (amended). When the intake result has a falsy \<open>is_valid\<close>, only the intake node is
  run and only the intake prompt is sent, and \<open>process_call\<close> returns an error record; the
  record carries the reason whenever the reason is truthy (a string that is not empty).
\<close>

theorem intake_rejection:
  assumes "snd (CallIntakeAgent_process llm raw) = Inr d"
      and "dict_item d ''is_valid'' = Inr v" and "\<not> truthy v"
      and "dict_item d ''reason'' = Inr r"
  shows "visited (final_state lib llm raw) = [Intake]
       \<and> calls (final_state lib llm raw) = [IntakePrompt raw]
       \<and> (\<exists>e. process_call lib (Inr llm) raw = Inr (ErrorRecord e))
       \<and> (truthy r \<longrightarrow> process_call lib (Inr llm) raw = Inr (ErrorRecord r))"
proof -
  have fin: "final_state lib llm raw = after_intake llm raw"
    using rejected_run(1) [OF assms] by (simp add: final_state_run)
  have e: "error (after_intake llm raw) = r"
    by (rule rejected_run(2) [OF assms])
  have "\<exists>e. process_call lib (Inr llm) raw = Inr (ErrorRecord e)"
    using build_analysis_no_transcript [of "after_intake llm raw" lib]
    by (simp add: process_call_final fin after_intake_fields)
  moreover have "truthy r \<longrightarrow> process_call lib (Inr llm) raw = Inr (ErrorRecord r)"
    using e by (simp add: process_call_final fin build_analysis_def)
  ultimately show ?thesis by (simp add: fin after_intake_fields)
qed

text \<open>The amended C2 at a rejection with the reason \<open>not a call\<close>.\<close>

theorem intake_rejection_witness:
  "snd (CallIntakeAgent_process (llm_reject (JStr ''not a call'')) ''hi'')
     = Inr [(''is_valid'', JBool False), (''reason'', JStr ''not a call''),
            (''estimated_speakers'', JInt 2), (''transcript'', JStr ''hi'')]
   \<and> \<not> truthy (JBool False) \<and> truthy (JStr ''not a call'')
   \<and> visited (final_state strict_lib (llm_reject (JStr ''not a call'')) ''hi'') = [Intake]
   \<and> calls (final_state strict_lib (llm_reject (JStr ''not a call'')) ''hi'')
       = [IntakePrompt ''hi'']
   \<and> process_call strict_lib (Inr (llm_reject (JStr ''not a call''))) ''hi''
       = Inr (ErrorRecord (JStr ''not a call''))"
proof -
  have a: "snd (CallIntakeAgent_process (llm_reject (JStr ''not a call'')) ''hi'')
     = Inr [(''is_valid'', JBool False), (''reason'', JStr ''not a call''),
            (''estimated_speakers'', JInt 2), (''transcript'', JStr ''hi'')]"
    by code_simp
  have b: "dict_item [(''is_valid'', JBool False), (''reason'', JStr ''not a call''),
            (''estimated_speakers'', JInt 2), (''transcript'', JStr ''hi'')] ''is_valid''
            = Inr (JBool False)"
    by (simp add: dict_item_def)
  have c: "dict_item [(''is_valid'', JBool False), (''reason'', JStr ''not a call''),
            (''estimated_speakers'', JInt 2), (''transcript'', JStr ''hi'')] ''reason''
            = Inr (JStr ''not a call'')"
    by (simp add: dict_item_def)
  have d: "\<not> truthy (JBool False)" by simp
  show ?thesis
    using a intake_rejection [OF a b d c, of strict_lib] by simp
qed

subsection \<open>C3: the fallback record of a stage\<close>

text \<open>
  C3, as stated, fails on responses that decode to an object. With missing fields: for the
  empty object \<open>{}\<close> the summarization stage returns the defaults of its \<open>.get\<close> calls,
  which differ from its fallback record. With fields of the wrong type: the intake and the
  routing stage return the values as they are, not their fallback records.
\<close>

theorem decode_failure_counterexample:
  "snd (SummarizationAgent_process strict_lib llm_empty_object (Some example_transcript))
     = Inr \<lparr>key_points = [''No key points extracted''], customer_issue = ''Not identified'',
            resolution = ''Not specified'', sentiment = NEUTRAL, category = GENERAL,
            action_items = []\<rparr>
   \<and> snd (SummarizationAgent_process strict_lib llm_empty_object (Some example_transcript))
     \<noteq> Inr summary_fallback
   \<and> snd (CallIntakeAgent_process llm_wrong_types ''hi'')
     = Inr [(''is_valid'', JStr ''yes''), (''reason'', JStr ''Valid transcript''),
            (''estimated_speakers'', JInt 2), (''transcript'', JStr ''hi'')]
   \<and> snd (CallIntakeAgent_process llm_wrong_types ''hi'') \<noteq> Inr (intake_fallback ''hi'')
   \<and> snd (RoutingAgent_process llm_wrong_types (Some summary_fallback) (Some qa_fallback))
     = Inr \<lparr>rd_recommendations = JInt 5, rd_tags = JList [JStr ''general'', JStr ''neutral'']\<rparr>
   \<and> snd (RoutingAgent_process llm_wrong_types (Some summary_fallback) (Some qa_fallback))
     \<noteq> Inr (routing_fallback summary_fallback)"
  by code_simp

text \<open>
  C3 (amended). For each of the four stages that call the model: when \<open>json.loads\<close> raises on
  the response, or returns something that is not an object, the stage returns exactly its
  hard-coded fallback record, which does not depend on the response (for the routing stage
  it is built from the category and sentiment of the summary). The summarization and the
  quality scoring stage also return their fallback record for an object in which the value
  of a field, or the default of a missing one, is rejected by the constructor: a value of the
  wrong type, an unknown sentiment or category, a score that \<open>float\<close> cannot convert or
  that lies outside the interval from 0 to 10. Missing fields are not a decoding failure:
  in every stage an object gives the same result as the object completed with the defaults
  of the \<open>.get\<close> calls.
\<close>

theorem decode_failure_gives_fallback:
  "(undecodable c \<longrightarrow>
      (llm (IntakePrompt raw) = Inr c \<longrightarrow>
         CallIntakeAgent_process llm raw = ([IntakePrompt raw], Inr (intake_fallback raw)))
      \<and> (llm (SummarizationPrompt (transcript_text t)) = Inr c \<longrightarrow>
           SummarizationAgent_process lib llm (Some t)
             = ([SummarizationPrompt (transcript_text t)], Inr summary_fallback))
      \<and> (llm (quality_prompt t s) = Inr c \<longrightarrow>
           QualityScoringAgent_process lib llm (Some t) (Some s)
             = ([quality_prompt t s], Inr qa_fallback))
      \<and> (llm (routing_prompt s q) = Inr c \<longrightarrow>
           RoutingAgent_process llm (Some s) (Some q)
             = ([routing_prompt s q], Inr (routing_fallback s))))
   \<and> (llm (SummarizationPrompt (transcript_text t)) = Inr (Decoded (JDict data))
        \<and> (k, d) \<in> set summary_defaults
        \<and> \<not> summary_field_ok lib k (dict_get data k d) \<longrightarrow>
          SummarizationAgent_process lib llm (Some t)
            = ([SummarizationPrompt (transcript_text t)], Inr summary_fallback))
   \<and> (llm (quality_prompt t s) = Inr (Decoded (JDict data))
        \<and> (k, d) \<in> set qa_defaults
        \<and> \<not> qa_field_ok lib (dict_get data k d) \<longrightarrow>
          QualityScoringAgent_process lib llm (Some t) (Some s)
            = ([quality_prompt t s], Inr qa_fallback))
   \<and> (llm (IntakePrompt raw) = Inr (Decoded (JDict data))
        \<and> llm' (IntakePrompt raw) = Inr (Decoded (JDict (data @ intake_defaults))) \<longrightarrow>
          CallIntakeAgent_process llm raw = CallIntakeAgent_process llm' raw)
   \<and> (llm (SummarizationPrompt (transcript_text t)) = Inr (Decoded (JDict data))
        \<and> llm' (SummarizationPrompt (transcript_text t))
            = Inr (Decoded (JDict (data @ summary_defaults))) \<longrightarrow>
          SummarizationAgent_process lib llm (Some t)
            = SummarizationAgent_process lib llm' (Some t))
   \<and> (llm (quality_prompt t s) = Inr (Decoded (JDict data))
        \<and> llm' (quality_prompt t s) = Inr (Decoded (JDict (data @ qa_defaults))) \<longrightarrow>
          QualityScoringAgent_process lib llm (Some t) (Some s)
            = QualityScoringAgent_process lib llm' (Some t) (Some s))
   \<and> (llm (routing_prompt s q) = Inr (Decoded (JDict data))
        \<and> llm' (routing_prompt s q) = Inr (Decoded (JDict (data @ routing_defaults s))) \<longrightarrow>
          RoutingAgent_process llm (Some s) (Some q) = RoutingAgent_process llm' (Some s) (Some q))"
proof -
  have u: "undecodable c \<longrightarrow>
      (llm (IntakePrompt raw) = Inr c \<longrightarrow>
         CallIntakeAgent_process llm raw = ([IntakePrompt raw], Inr (intake_fallback raw)))
      \<and> (llm (SummarizationPrompt (transcript_text t)) = Inr c \<longrightarrow>
           SummarizationAgent_process lib llm (Some t)
             = ([SummarizationPrompt (transcript_text t)], Inr summary_fallback))
      \<and> (llm (quality_prompt t s) = Inr c \<longrightarrow>
           QualityScoringAgent_process lib llm (Some t) (Some s)
             = ([quality_prompt t s], Inr qa_fallback))
      \<and> (llm (routing_prompt s q) = Inr c \<longrightarrow>
           RoutingAgent_process llm (Some s) (Some q)
             = ([routing_prompt s q], Inr (routing_fallback s)))"
    by (simp add: CallIntakeAgent_process_def SummarizationAgent_process_def
        QualityScoringAgent_process_def RoutingAgent_process_def
        intake_undecodable summary_undecodable qa_undecodable routing_undecodable)
  have ws: "llm (SummarizationPrompt (transcript_text t)) = Inr (Decoded (JDict data))
        \<and> (k, d) \<in> set summary_defaults
        \<and> \<not> summary_field_ok lib k (dict_get data k d) \<longrightarrow>
          SummarizationAgent_process lib llm (Some t)
            = ([SummarizationPrompt (transcript_text t)], Inr summary_fallback)"
    using summary_rejects [of k d lib data] by (simp add: SummarizationAgent_process_def)
  have wq: "llm (quality_prompt t s) = Inr (Decoded (JDict data))
        \<and> (k, d) \<in> set qa_defaults
        \<and> \<not> qa_field_ok lib (dict_get data k d) \<longrightarrow>
          QualityScoringAgent_process lib llm (Some t) (Some s)
            = ([quality_prompt t s], Inr qa_fallback)"
    using qa_rejects [of k d lib data] by (simp add: QualityScoringAgent_process_def)
  have mi: "llm (IntakePrompt raw) = Inr (Decoded (JDict data))
        \<and> llm' (IntakePrompt raw) = Inr (Decoded (JDict (data @ intake_defaults))) \<longrightarrow>
          CallIntakeAgent_process llm raw = CallIntakeAgent_process llm' raw"
    by (simp add: CallIntakeAgent_process_def intake_try_defaults)
  have ms: "llm (SummarizationPrompt (transcript_text t)) = Inr (Decoded (JDict data))
        \<and> llm' (SummarizationPrompt (transcript_text t))
            = Inr (Decoded (JDict (data @ summary_defaults))) \<longrightarrow>
          SummarizationAgent_process lib llm (Some t)
            = SummarizationAgent_process lib llm' (Some t)"
    by (simp add: SummarizationAgent_process_def summary_try_defaults)
  have mq: "llm (quality_prompt t s) = Inr (Decoded (JDict data))
        \<and> llm' (quality_prompt t s) = Inr (Decoded (JDict (data @ qa_defaults))) \<longrightarrow>
          QualityScoringAgent_process lib llm (Some t) (Some s)
            = QualityScoringAgent_process lib llm' (Some t) (Some s)"
    by (simp add: QualityScoringAgent_process_def qa_try_defaults)
  have mr: "llm (routing_prompt s q) = Inr (Decoded (JDict data))
        \<and> llm' (routing_prompt s q) = Inr (Decoded (JDict (data @ routing_defaults s))) \<longrightarrow>
          RoutingAgent_process llm (Some s) (Some q) = RoutingAgent_process llm' (Some s) (Some q)"
    by (simp add: RoutingAgent_process_def routing_try_defaults)
  show ?thesis by (intro conjI u ws wq mi ms mq mr)
qed

text \<open>
  The amended C3 at a response that is not JSON, at an object with fields of the wrong
  type, and at the empty object against the objects of the defaults.
\<close>

theorem decode_failure_gives_fallback_witness:
  "undecodable Malformed
   \<and> CallIntakeAgent_process llm_malformed ''hi''
       = ([IntakePrompt ''hi''], Inr (intake_fallback ''hi''))
   \<and> SummarizationAgent_process strict_lib llm_malformed (Some example_transcript)
       = ([SummarizationPrompt ''hi''], Inr summary_fallback)
   \<and> QualityScoringAgent_process strict_lib llm_malformed (Some example_transcript)
         (Some summary_fallback)
       = ([quality_prompt example_transcript summary_fallback], Inr qa_fallback)
   \<and> RoutingAgent_process llm_malformed (Some summary_fallback) (Some qa_fallback)
       = ([routing_prompt summary_fallback qa_fallback], Inr (routing_fallback summary_fallback))
   \<and> (''customer_issue'', JStr ''Not identified'') \<in> set summary_defaults
   \<and> \<not> summary_field_ok strict_lib ''customer_issue'' JNull
   \<and> SummarizationAgent_process strict_lib llm_wrong_types (Some example_transcript)
       = ([SummarizationPrompt ''hi''], Inr summary_fallback)
   \<and> (''empathy'', JFloat 7) \<in> set qa_defaults
   \<and> \<not> qa_field_ok strict_lib (JStr ''high'')
   \<and> QualityScoringAgent_process strict_lib llm_wrong_types (Some example_transcript)
         (Some summary_fallback)
       = ([quality_prompt example_transcript summary_fallback], Inr qa_fallback)
   \<and> CallIntakeAgent_process llm_empty_object ''hi''
       = CallIntakeAgent_process llm_stage_defaults ''hi''
   \<and> SummarizationAgent_process strict_lib llm_empty_object (Some example_transcript)
       = SummarizationAgent_process strict_lib llm_stage_defaults (Some example_transcript)
   \<and> QualityScoringAgent_process strict_lib llm_empty_object (Some example_transcript)
         (Some summary_fallback)
       = QualityScoringAgent_process strict_lib llm_stage_defaults (Some example_transcript)
           (Some summary_fallback)
   \<and> RoutingAgent_process llm_empty_object (Some summary_fallback) (Some qa_fallback)
       = RoutingAgent_process llm_stage_defaults (Some summary_fallback) (Some qa_fallback)"
proof -
  have u: "undecodable Malformed" by simp
  have a: "(''customer_issue'', JStr ''Not identified'') \<in> set summary_defaults"
    by (simp add: summary_defaults_def)
  have b: "\<not> summary_field_ok strict_lib ''customer_issue'' JNull"
    by (simp add: summary_field_ok_def)
  have c: "(''empathy'', JFloat 7) \<in> set qa_defaults"
    by (simp add: qa_defaults_def)
  have d: "\<not> qa_field_ok strict_lib (JStr ''high'')"
    by (simp add: qa_field_ok_def strict_lib_def)
  note fallback = decode_failure_gives_fallback [where c = Malformed and llm = llm_malformed
      and raw = "''hi''" and t = example_transcript and s = summary_fallback
      and lib = strict_lib and q = qa_fallback]
  note wrong = decode_failure_gives_fallback [where llm = llm_wrong_types
      and data = "[(''is_valid'', JStr ''yes''), (''recommendations'', JInt 5),
                   (''customer_issue'', JNull), (''empathy'', JStr ''high'')]"
      and t = example_transcript and s = summary_fallback and lib = strict_lib]
  note missing = decode_failure_gives_fallback [where llm = llm_empty_object
      and llm' = llm_stage_defaults and data = "[]" and raw = "''hi''"
      and t = example_transcript and s = summary_fallback and lib = strict_lib
      and q = qa_fallback]
  have f: "CallIntakeAgent_process llm_malformed ''hi''
       = ([IntakePrompt ''hi''], Inr (intake_fallback ''hi''))"
    "SummarizationAgent_process strict_lib llm_malformed (Some example_transcript)
       = ([SummarizationPrompt ''hi''], Inr summary_fallback)"
    "QualityScoringAgent_process strict_lib llm_malformed (Some example_transcript)
         (Some summary_fallback)
       = ([quality_prompt example_transcript summary_fallback], Inr qa_fallback)"
    "RoutingAgent_process llm_malformed (Some summary_fallback) (Some qa_fallback)
       = ([routing_prompt summary_fallback qa_fallback], Inr (routing_fallback summary_fallback))"
    using u fallback by (simp_all add: llm_malformed_def example_transcript_def)
  have ws: "SummarizationAgent_process strict_lib llm_wrong_types (Some example_transcript)
       = ([SummarizationPrompt ''hi''], Inr summary_fallback)"
    using a b wrong [where k = "''customer_issue''" and d = "JStr ''Not identified''"]
    by (simp add: llm_wrong_types_def example_transcript_def dict_get_def)
  have wq: "QualityScoringAgent_process strict_lib llm_wrong_types (Some example_transcript)
         (Some summary_fallback)
       = ([quality_prompt example_transcript summary_fallback], Inr qa_fallback)"
    using c d wrong [where k = "''empathy''" and d = "JFloat 7"]
    by (simp add: llm_wrong_types_def dict_get_def)
  have m: "CallIntakeAgent_process llm_empty_object ''hi''
       = CallIntakeAgent_process llm_stage_defaults ''hi''"
    "SummarizationAgent_process strict_lib llm_empty_object (Some example_transcript)
       = SummarizationAgent_process strict_lib llm_stage_defaults (Some example_transcript)"
    "QualityScoringAgent_process strict_lib llm_empty_object (Some example_transcript)
         (Some summary_fallback)
       = QualityScoringAgent_process strict_lib llm_stage_defaults (Some example_transcript)
           (Some summary_fallback)"
    "RoutingAgent_process llm_empty_object (Some summary_fallback) (Some qa_fallback)
       = RoutingAgent_process llm_stage_defaults (Some summary_fallback) (Some qa_fallback)"
    using missing
    by (simp_all add: llm_empty_object_def llm_stage_defaults_def quality_prompt_def
        routing_prompt_def)
  show ?thesis by (intro conjI u a b c d f ws wq m)
qed

subsection \<open>C4: intake fails open\<close>

text \<open>
  C4. When the response of the intake model does not parse as JSON, the intake result has
  \<open>is_valid = True\<close> and \<open>estimated_speakers = 2\<close> and keeps the raw input as its transcript;
  the conditional edge continues and no error is recorded.
\<close>

theorem intake_fail_open:
  assumes "llm (IntakePrompt raw) = Inr Malformed"
  shows "snd (CallIntakeAgent_process llm raw) = Inr (intake_fallback raw)
       \<and> dict_item (intake_fallback raw) ''is_valid'' = Inr (JBool True)
       \<and> dict_item (intake_fallback raw) ''estimated_speakers'' = Inr (JInt 2)
       \<and> dict_item (intake_fallback raw) ''transcript'' = Inr (JStr raw)
       \<and> intake_edge (after_intake llm raw)
       \<and> error (after_intake llm raw) = JNull"
  using assms
  by (simp add: CallIntakeAgent_process_def intake_try_def intake_fallback_def dict_item_def
      intake_edge_def after_intake_def intake_node_fields intake_node_error initial_state_def
      dict_get_def)

text \<open>C4 at the input \<open>hi\<close> with a model whose answers are not JSON.\<close>

theorem intake_fail_open_witness:
  "llm_malformed (IntakePrompt ''hi'') = Inr Malformed
   \<and> snd (CallIntakeAgent_process llm_malformed ''hi'') = Inr (intake_fallback ''hi'')
   \<and> dict_item (intake_fallback ''hi'') ''is_valid'' = Inr (JBool True)
   \<and> dict_item (intake_fallback ''hi'') ''estimated_speakers'' = Inr (JInt 2)
   \<and> dict_item (intake_fallback ''hi'') ''transcript'' = Inr (JStr ''hi'')
   \<and> intake_edge (after_intake llm_malformed ''hi'')
   \<and> error (after_intake llm_malformed ''hi'') = JNull"
proof -
  have h: "llm_malformed (IntakePrompt ''hi'') = Inr Malformed"
    by (simp add: llm_malformed_def)
  show ?thesis
    using h intake_fail_open [where llm = llm_malformed and raw = "''hi''"] by simp
qed

subsection \<open>C5: the range of the quality scores\<close>

text \<open>
  C5. Every \<open>QAScore\<close> that the quality scoring stage returns, decoded or fallback, has its
  five fields in the closed interval from 0 to 10: a response with a value outside it
  makes the constructor raise inside the \<open>try\<close>, and the fallback is returned.
\<close>

theorem quality_scores_in_range:
  assumes "QualityScoringAgent_process lib llm t s = (ps, Inr q)"
  shows "0 \<le> empathy q \<and> empathy q \<le> 10
       \<and> 0 \<le> professionalism q \<and> professionalism q \<le> 10
       \<and> 0 \<le> qa_resolution q \<and> qa_resolution q \<le> 10
       \<and> 0 \<le> compliance q \<and> compliance q \<le> 10
       \<and> 0 \<le> overall q \<and> overall q \<le> 10"
proof -
  from assms have "\<exists>c. q = qa_try lib c"
    by (auto simp: QualityScoringAgent_process_def Let_def split: option.splits sum.splits)
  then obtain c where "q = qa_try lib c" ..
  with qa_try_range [of lib c] show ?thesis by (simp add: score_ok_def)
qed

text \<open>C5 at a response whose empathy score is 15: the stage returns the fallback scores.\<close>

theorem quality_scores_in_range_witness:
  "QualityScoringAgent_process strict_lib llm_empathy_15 (Some example_transcript)
       (Some summary_fallback)
     = ([quality_prompt example_transcript summary_fallback], Inr qa_fallback)
   \<and> 0 \<le> empathy qa_fallback \<and> empathy qa_fallback \<le> 10
   \<and> 0 \<le> professionalism qa_fallback \<and> professionalism qa_fallback \<le> 10
   \<and> 0 \<le> qa_resolution qa_fallback \<and> qa_resolution qa_fallback \<le> 10
   \<and> 0 \<le> compliance qa_fallback \<and> compliance qa_fallback \<le> 10
   \<and> 0 \<le> overall qa_fallback \<and> overall qa_fallback \<le> 10"
proof -
  have run: "QualityScoringAgent_process strict_lib llm_empathy_15 (Some example_transcript)
       (Some summary_fallback)
     = ([quality_prompt example_transcript summary_fallback], Inr qa_fallback)"
    by (simp add: QualityScoringAgent_process_def qa_try_def llm_empathy_15_def dict_get_def
        mk_QAScore_def score_ok_def)
  show ?thesis
    using run quality_scores_in_range [where lib = strict_lib and llm = llm_empathy_15
        and t = "Some example_transcript" and s = "Some summary_fallback"
        and ps = "[quality_prompt example_transcript summary_fallback]" and q = qa_fallback]
    by simp
qed

subsection \<open>C6: a complete analysis or an error record\<close>




subsection \<open>C7: transcript normalization\<close>

text \<open>
  C7. For an intake result with transcript text \<open>T\<close> and speaker estimate 2 the
  transcription stage returns exactly the record with text \<open>T\<close>, speaker count 2 and no
  duration. It has no access to the model (no \<open>chat_model\<close> argument), and its node sends
  no prompt.
\<close>

theorem transcription_exact:
  assumes "dict_item d ''transcript'' = Inr (JStr T)"
      and "dict_get d ''estimated_speakers'' (JInt 2) = JInt 2"
  shows "TranscriptionAgent_process lib d
           = Inr \<lparr>transcript_text = T, speaker_count = Some 2, duration = None\<rparr>
       \<and> (intake_data st = d \<longrightarrow>
            st_transcript (transcription_node lib st)
              = Some \<lparr>transcript_text = T, speaker_count = Some 2, duration = None\<rparr>
            \<and> calls (transcription_node lib st) = calls st)"
  using assms
  by (simp add: TranscriptionAgent_process_def mk_CallTranscript_def transcription_node_fields)

text \<open>C7 at the intake result of the input \<open>hi\<close>.\<close>

theorem transcription_exact_witness:
  "dict_item (intake_fallback ''hi'') ''transcript'' = Inr (JStr ''hi'')
   \<and> dict_get (intake_fallback ''hi'') ''estimated_speakers'' (JInt 2) = JInt 2
   \<and> TranscriptionAgent_process strict_lib (intake_fallback ''hi'')
        = Inr \<lparr>transcript_text = ''hi'', speaker_count = Some 2, duration = None\<rparr>
   \<and> intake_data (after_intake llm_malformed ''hi'') = intake_fallback ''hi''
   \<and> st_transcript (transcription_node strict_lib (after_intake llm_malformed ''hi''))
        = Some \<lparr>transcript_text = ''hi'', speaker_count = Some 2, duration = None\<rparr>
   \<and> calls (transcription_node strict_lib (after_intake llm_malformed ''hi''))
        = calls (after_intake llm_malformed ''hi'')"
proof -
  have h1: "dict_item (intake_fallback ''hi'') ''transcript'' = Inr (JStr ''hi'')"
    by (simp add: intake_fallback_def dict_item_def)
  have h2: "dict_get (intake_fallback ''hi'') ''estimated_speakers'' (JInt 2) = JInt 2"
    by (simp add: intake_fallback_def dict_get_def)
  have h3: "intake_data (after_intake llm_malformed ''hi'') = intake_fallback ''hi''"
    by (simp add: after_intake_def intake_node_fields initial_state_def llm_malformed_def
        intake_try_def)
  show ?thesis
    using h1 h2 h3
      transcription_exact [OF h1 h2, of strict_lib "after_intake llm_malformed ''hi''"]
    by simp
qed

subsection \<open>C8: the result is determined by the responses\<close>

text \<open>
  C8. Two runs on the same input in which the model gives the same responses to the prompts
  that are sent end in the same state and return the same result: a model \<open>llm'\<close> that
  agrees with \<open>llm\<close> on the prompts of the run under \<open>llm\<close> yields the same final state and
  the same value of \<open>process_call\<close>.
\<close>

theorem same_responses_same_result:
  assumes "\<forall>p \<in> set (calls (final_state lib llm raw)). llm' p = llm p"
  shows "final_state lib llm' raw = final_state lib llm raw
       \<and> process_call lib (Inr llm') raw = process_call lib (Inr llm) raw"
proof -
  have "final_state lib llm' raw = final_state lib llm raw"
  proof (cases "intake_edge (after_intake llm raw)")
    case True
    with assms have a: "\<forall>p \<in> set (calls (after_routing lib llm raw)). llm' p = llm p"
      by (simp add: final_state_run)
    then have "llm' (IntakePrompt raw) = llm (IntakePrompt raw)"
      by (simp add: after_routing_calls after_quality_scoring_calls after_summarization_calls)
    then have "after_intake llm' raw = after_intake llm raw"
      by (rule after_intake_agree)
    with True after_routing_agree [OF a] show ?thesis
      by (simp add: final_state_run)
  next
    case False
    with assms have "llm' (IntakePrompt raw) = llm (IntakePrompt raw)"
      by (simp add: final_state_run after_intake_fields)
    then have "after_intake llm' raw = after_intake llm raw"
      by (rule after_intake_agree)
    with False show ?thesis
      by (simp add: final_state_run)
  qed
  then show ?thesis by (simp add: process_call_final)
qed

text \<open>C8 at the run on \<open>hi\<close>, for two models that differ on prompts the run does not send.\<close>

theorem same_responses_same_result_witness:
  "calls (final_state strict_lib llm_malformed ''hi'')
     = [IntakePrompt ''hi'', SummarizationPrompt ''hi'',
        quality_prompt example_transcript summary_fallback,
        routing_prompt summary_fallback qa_fallback]
   \<and> llm_other (IntakePrompt ''hi'') = llm_malformed (IntakePrompt ''hi'')
   \<and> llm_other (SummarizationPrompt ''hi'') = llm_malformed (SummarizationPrompt ''hi'')
   \<and> llm_other (quality_prompt example_transcript summary_fallback)
       = llm_malformed (quality_prompt example_transcript summary_fallback)
   \<and> llm_other (routing_prompt summary_fallback qa_fallback)
       = llm_malformed (routing_prompt summary_fallback qa_fallback)
   \<and> llm_other (IntakePrompt ''bye'') \<noteq> llm_malformed (IntakePrompt ''bye'')
   \<and> final_state strict_lib llm_other ''hi'' = final_state strict_lib llm_malformed ''hi''
   \<and> process_call strict_lib (Inr llm_other) ''hi'' = process_call strict_lib (Inr llm_malformed) ''hi''"
proof -
  have c: "calls (final_state strict_lib llm_malformed ''hi'')
     = [IntakePrompt ''hi'', SummarizationPrompt ''hi'',
        quality_prompt example_transcript summary_fallback,
        routing_prompt summary_fallback qa_fallback]"
    by code_simp
  have e: "llm_other (IntakePrompt ''hi'') = llm_malformed (IntakePrompt ''hi'')"
    "llm_other (SummarizationPrompt ''hi'') = llm_malformed (SummarizationPrompt ''hi'')"
    "llm_other (quality_prompt example_transcript summary_fallback)
       = llm_malformed (quality_prompt example_transcript summary_fallback)"
    "llm_other (routing_prompt summary_fallback qa_fallback)
       = llm_malformed (routing_prompt summary_fallback qa_fallback)"
    by (simp_all add: llm_other_def llm_malformed_def)
  have a: "\<forall>p \<in> set (calls (final_state strict_lib llm_malformed ''hi'')).
             llm_other p = llm_malformed p"
    unfolding c using e by simp
  have d: "llm_other (IntakePrompt ''bye'') \<noteq> llm_malformed (IntakePrompt ''bye'')"
    by (simp add: llm_other_def llm_malformed_def quality_prompt_def routing_prompt_def)
  from same_responses_same_result [OF a]
  have f: "final_state strict_lib llm_other ''hi'' = final_state strict_lib llm_malformed ''hi''"
    and g: "process_call strict_lib (Inr llm_other) ''hi'' = process_call strict_lib (Inr llm_malformed) ''hi''"
    by simp_all
  show ?thesis by (intro conjI c d e f g)
qed

subsection \<open>C9: the temporary file of an audio upload\<close>

text \<open>
  C9 fails on the code: when the transcription of the uploaded audio is the empty string,
  the handler skips the block whose \<open>finally\<close> removes the temporary file, and the file
  stays.
\<close>

theorem temp_file_left_behind:
  "files (analyze_call_handler strict_lib (Inr llm_malformed) (\<lambda>path. Inr '''') (\<lambda>path. True)
            ''/tmp/tmpab12.wav'' (Some ''call.wav'') '''' {})
     = {''/tmp/tmpab12.wav''}"
  by code_simp

subsection \<open>C10: the error field is never cleared\<close>



end
